theory Spec2Isabelle
  imports Complex_Main
begin

section \<open>Numbers, cells and tables\<close>

text \<open>
  The programs compute on pandas columns and numpy arrays of floats. A float is modelled as
  a real number (\<open>Fin\<close>) or as \<open>NaN\<close>, the value pandas also uses for a missing cell.
  Arithmetic on finite values is exact: rounding and the infinities are not modelled.
  \<open>NaN\<close> propagates through arithmetic and makes every comparison false, as in numpy.
\<close>

datatype npfloat = Fin real | NaN

instantiation npfloat :: "{plus, minus, times, ord}"
begin

definition plus_npfloat :: "npfloat \<Rightarrow> npfloat \<Rightarrow> npfloat" where
  "plus_npfloat a b = (case (a, b) of (Fin x, Fin y) \<Rightarrow> Fin (x + y) | _ \<Rightarrow> NaN)"

definition minus_npfloat :: "npfloat \<Rightarrow> npfloat \<Rightarrow> npfloat" where
  "minus_npfloat a b = (case (a, b) of (Fin x, Fin y) \<Rightarrow> Fin (x - y) | _ \<Rightarrow> NaN)"

definition times_npfloat :: "npfloat \<Rightarrow> npfloat \<Rightarrow> npfloat" where
  "times_npfloat a b = (case (a, b) of (Fin x, Fin y) \<Rightarrow> Fin (x * y) | _ \<Rightarrow> NaN)"

definition less_eq_npfloat :: "npfloat \<Rightarrow> npfloat \<Rightarrow> bool" where
  "less_eq_npfloat a b = (case (a, b) of (Fin x, Fin y) \<Rightarrow> x \<le> y | _ \<Rightarrow> False)"

definition less_npfloat :: "npfloat \<Rightarrow> npfloat \<Rightarrow> bool" where
  "less_npfloat a b = (case (a, b) of (Fin x, Fin y) \<Rightarrow> x < y | _ \<Rightarrow> False)"

instance ..

end

text \<open>Division. numpy's division by zero gives nan (or an infinity, which is not
  modelled) with a warning; it is recorded as the non-finite value.\<close>

definition np_divide :: "npfloat \<Rightarrow> npfloat \<Rightarrow> npfloat" where
  "np_divide a b =
     (case (a, b) of (Fin x, Fin y) \<Rightarrow> (if y = 0 then NaN else Fin (x / y)) | _ \<Rightarrow> NaN)"

text \<open>Python's builtin \<open>min(a, b)\<close> keeps \<open>a\<close> unless \<open>b < a\<close>.\<close>

definition py_min :: "npfloat \<Rightarrow> npfloat \<Rightarrow> npfloat" where
  "py_min a b = (if b < a then b else a)"

text \<open>\<open>np.maximum\<close> propagates \<open>NaN\<close>.\<close>

definition np_maximum :: "npfloat \<Rightarrow> npfloat \<Rightarrow> npfloat" where
  "np_maximum a b = (case (a, b) of (Fin x, Fin y) \<Rightarrow> Fin (max x y) | _ \<Rightarrow> NaN)"

text \<open>\<open>np.sum\<close> of an array adds every element, \<open>NaN\<close> included; the empty sum is 0.\<close>

definition np_sum :: "npfloat list \<Rightarrow> npfloat" where
  "np_sum xs = foldl (+) (Fin 0) xs"

text \<open>\<open>Series.sum()\<close> of pandas skips missing values (\<open>skipna=True\<close>).\<close>

fun series_sum :: "npfloat list \<Rightarrow> npfloat" where
  "series_sum [] = Fin 0"
| "series_sum (NaN # xs) = series_sum xs"
| "series_sum (Fin x # xs) = Fin x + series_sum xs"

text \<open>Boolean-mask indexing \<open>xs[selected]\<close>.\<close>

definition boolean_index :: "'a list \<Rightarrow> bool list \<Rightarrow> 'a list" where
  "boolean_index xs selected = map fst (filter snd (zip xs selected))"

text \<open>
  A cell of a table is a float or a string. A \<open>DataFrame\<close> maps a column name to its
  column; in a DataFrame all columns have the same length.
\<close>

datatype cell = Float npfloat | Text string

type_synonym dataframe = "string \<Rightarrow> cell list option"

abbreviation num :: "real \<Rightarrow> cell" where
  "num r \<equiv> Float (Fin r)"

datatype error = KeyError string | TypeError | ValueError string

abbreviation TIMESTAMP :: string where
  "TIMESTAMP \<equiv> ''Timestamp''"

abbreviation ENERGY_PRICE :: string where
  "ENERGY_PRICE \<equiv> ''Energy Price ($/kWh)''"

abbreviation RENEWABLE_AVAILABILITY :: string where
  "RENEWABLE_AVAILABILITY \<equiv> ''Renewable Availability (%)''"

abbreviation WORKLOAD_ENERGY :: string where
  "WORKLOAD_ENERGY \<equiv> ''Workload Energy Consumption (kWh)''"

text \<open>
  The float array of a column. Arithmetic of a string cell with a float raises
  \<open>TypeError\<close>; the model raises it when the column enters the first computation.
\<close>

fun float_values :: "cell list \<Rightarrow> error + npfloat list" where
  "float_values [] = Inr []"
| "float_values (Float x # cs) =
     (case float_values cs of Inl e \<Rightarrow> Inl e | Inr xs \<Rightarrow> Inr (x # xs))"
| "float_values (Text s # cs) = Inl TypeError"

section \<open>The optimization engine: \<open>run_simulation\<close> of \<open>energy_simulation.py\<close>\<close>

subsection \<open>Step 2: baseline metrics\<close>

text \<open>The cost of an energy array (line 43 for the baseline, 81 for the optimized energy).\<close>

definition cost :: "npfloat list \<Rightarrow> npfloat list \<Rightarrow> npfloat list" where
  "cost energy_consumption energy_prices = map2 (*) energy_consumption energy_prices"

text \<open>The emissions of an energy array, split by the renewable fraction of each slot
  (lines 44 to 49 for the baseline, 82 to 87 for the optimized energy).\<close>

definition emissions :: "npfloat list \<Rightarrow> npfloat list \<Rightarrow> real \<Rightarrow> real \<Rightarrow> npfloat list" where
  "emissions energy_consumption renewable_availability
       emission_factor_non_renewable emission_factor_renewable =
     (let renewable_energy = map2 (*) energy_consumption renewable_availability;
          non_renewable_energy = map2 (-) energy_consumption renewable_energy
      in map2 (+) (map (\<lambda>x. x * Fin emission_factor_non_renewable) non_renewable_energy)
                  (map (\<lambda>x. x * Fin emission_factor_renewable) renewable_energy))"

subsection \<open>Step 3: the workload schedule\<close>

definition optimal_hours :: "npfloat list \<Rightarrow> real \<Rightarrow> bool list" where
  "optimal_hours renewable_availability renewable_threshold =
     map (\<lambda>a. a \<ge> Fin renewable_threshold) renewable_availability"

definition total_energy_to_shift :: "npfloat list \<Rightarrow> npfloat list \<Rightarrow> real \<Rightarrow> npfloat" where
  "total_energy_to_shift workload_energy renewable_availability renewable_threshold =
     (let not_optimal = map Not (optimal_hours renewable_availability renewable_threshold)
      in np_sum (map2 (*) (boolean_index workload_energy not_optimal)
                   (map (\<lambda>a. Fin renewable_threshold - a)
                      (boolean_index renewable_availability not_optimal))))"

text \<open>The first loop (lines 61 to 68), from index \<open>i\<close> on; \<open>n\<close> is \<open>len(timestamps)\<close>.\<close>

function increase_workload ::
  "nat \<Rightarrow> nat \<Rightarrow> bool list \<Rightarrow> npfloat list \<Rightarrow> npfloat list \<Rightarrow> npfloat \<Rightarrow> npfloat list" where
  "increase_workload i n optimal workload_energy optimized_workload_energy energy_to_shift =
     (if i < n then
        (if optimal ! i then
           (let max_additional_energy = workload_energy ! i * Fin 0.2;
                shift_amount = py_min energy_to_shift max_additional_energy;
                optimized' = optimized_workload_energy
                               [i := optimized_workload_energy ! i + shift_amount];
                energy_to_shift' = energy_to_shift - shift_amount
            in if energy_to_shift' \<le> Fin 0 then optimized'
               else increase_workload (i + 1) n optimal workload_energy optimized'
                      energy_to_shift')
         else increase_workload (i + 1) n optimal workload_energy optimized_workload_energy
                energy_to_shift)
      else optimized_workload_energy)"
  by pat_completeness auto
termination
  by (relation "measure (\<lambda>(i, n, optimal, w, ow, e). n - i)") auto

text \<open>The second loop (lines 71 to 74).\<close>

function decrease_workload ::
  "nat \<Rightarrow> nat \<Rightarrow> bool list \<Rightarrow> npfloat list \<Rightarrow> npfloat list \<Rightarrow> npfloat list" where
  "decrease_workload i n optimal workload_energy optimized_workload_energy =
     (if i < n then
        (if \<not> optimal ! i then
           (let reduction = workload_energy ! i * Fin 0.1
            in decrease_workload (i + 1) n optimal workload_energy
                 (optimized_workload_energy[i := optimized_workload_energy ! i - reduction]))
         else decrease_workload (i + 1) n optimal workload_energy optimized_workload_energy)
      else optimized_workload_energy)"
  by pat_completeness auto
termination
  by (relation "measure (\<lambda>(i, n, optimal, w, ow). n - i)") auto

declare increase_workload.simps [simp del]
declare decrease_workload.simps [simp del]

definition optimized_workload :: "nat \<Rightarrow> npfloat list \<Rightarrow> npfloat list \<Rightarrow> real \<Rightarrow> npfloat list" where
  "optimized_workload n workload_energy renewable_availability renewable_threshold =
     (let optimal = optimal_hours renewable_availability renewable_threshold;
          energy_to_shift =
            total_energy_to_shift workload_energy renewable_availability renewable_threshold;
          increased = increase_workload 0 n optimal workload_energy workload_energy energy_to_shift;
          decreased = decrease_workload 0 n optimal workload_energy increased
      in map (\<lambda>x. np_maximum x (Fin 0)) decreased)"

subsection \<open>Steps 4 and 5: metrics and the result\<close>

record simulation_results =
  total_baseline_energy :: npfloat
  total_optimized_energy :: npfloat
  energy_savings :: npfloat
  total_baseline_cost :: npfloat
  total_optimized_cost :: npfloat
  cost_savings :: npfloat
  total_baseline_emissions :: npfloat
  total_optimized_emissions :: npfloat
  emissions_reduction :: npfloat
  carbon_footprint_impact :: npfloat
  df :: dataframe

definition carbon_footprint :: "npfloat \<Rightarrow> npfloat \<Rightarrow> npfloat" where
  "carbon_footprint emissions_reduction' total_baseline_emissions' =
     (if total_baseline_emissions' \<noteq> Fin 0
      then np_divide emissions_reduction' total_baseline_emissions' * Fin 100 else Fin 0)"

text \<open>Lines 41 to 128, on the arrays taken from the table.\<close>

definition simulate ::
  "cell list \<Rightarrow> npfloat list \<Rightarrow> npfloat list \<Rightarrow> npfloat list \<Rightarrow> real \<Rightarrow> real \<Rightarrow> real
     \<Rightarrow> simulation_results" where
  "simulate timestamps energy_prices renewable_availability workload_energy
       renewable_threshold emission_factor_non_renewable emission_factor_renewable =
     (let baseline_energy_consumption = workload_energy;
          optimized_energy_consumption =
            optimized_workload (length timestamps) workload_energy renewable_availability
              renewable_threshold;
          tbe = np_sum baseline_energy_consumption;
          toe = np_sum optimized_energy_consumption;
          tbc = np_sum (cost baseline_energy_consumption energy_prices);
          toc = np_sum (cost optimized_energy_consumption energy_prices);
          tbm = np_sum (emissions baseline_energy_consumption renewable_availability
                  emission_factor_non_renewable emission_factor_renewable);
          tom = np_sum (emissions optimized_energy_consumption renewable_availability
                  emission_factor_non_renewable emission_factor_renewable)
      in \<lparr> total_baseline_energy = tbe,
           total_optimized_energy = toe,
           energy_savings = tbe - toe,
           total_baseline_cost = tbc,
           total_optimized_cost = toc,
           cost_savings = tbc - toc,
           total_baseline_emissions = tbm,
           total_optimized_emissions = tom,
           emissions_reduction = tbm - tom,
           carbon_footprint_impact = carbon_footprint (tbm - tom) tbm,
           df = [TIMESTAMP \<mapsto> timestamps,
                 ''Baseline Energy (kWh)'' \<mapsto> map Float baseline_energy_consumption,
                 ''Optimized Energy (kWh)'' \<mapsto> map Float optimized_energy_consumption,
                 RENEWABLE_AVAILABILITY \<mapsto>
                   map (\<lambda>a. Float (a * Fin 100)) renewable_availability,
                 ENERGY_PRICE \<mapsto> map Float energy_prices] \<rparr>)"

text \<open>Line 38: \<open>data['Renewable Availability (%)'].values / 100\<close>.\<close>

definition availability_fraction :: "npfloat list \<Rightarrow> npfloat list" where
  "availability_fraction availability_pct = map (\<lambda>a. np_divide a (Fin 100)) availability_pct"

text \<open>
  Lines 36 to 39 read the four columns; a missing column raises \<open>KeyError\<close>. The
  availability is divided by 100 at once (line 38), the other arrays enter arithmetic from
  line 43 on.
\<close>

definition run_simulation ::
  "dataframe \<Rightarrow> real \<Rightarrow> real \<Rightarrow> real \<Rightarrow> error + simulation_results" where
  "run_simulation data renewable_threshold emission_factor_non_renewable
       emission_factor_renewable =
     (case data TIMESTAMP of
        None \<Rightarrow> Inl (KeyError TIMESTAMP)
      | Some timestamps \<Rightarrow>
     (case data ENERGY_PRICE of
        None \<Rightarrow> Inl (KeyError ENERGY_PRICE)
      | Some price_column \<Rightarrow>
     (case data RENEWABLE_AVAILABILITY of
        None \<Rightarrow> Inl (KeyError RENEWABLE_AVAILABILITY)
      | Some availability_column \<Rightarrow>
     (case float_values availability_column of
        Inl e \<Rightarrow> Inl e
      | Inr availability_pct \<Rightarrow>
     (case data WORKLOAD_ENERGY of
        None \<Rightarrow> Inl (KeyError WORKLOAD_ENERGY)
      | Some workload_column \<Rightarrow>
     (case float_values workload_column of
        Inl e \<Rightarrow> Inl e
      | Inr workload_energy \<Rightarrow>
     (case float_values price_column of
        Inl e \<Rightarrow> Inl e
      | Inr energy_prices \<Rightarrow>
          Inr (simulate timestamps energy_prices (availability_fraction availability_pct)
                 workload_energy renewable_threshold emission_factor_non_renewable
                 emission_factor_renewable))))))))"

section \<open>The baseline estimator: \<open>calculate_baseline\<close> of \<open>baseline_calculator.py\<close>\<close>

text \<open>
  \<open>pd.to_numeric(..., errors='coerce')\<close> keeps a number, parses a string and turns a
  string that is no number into \<open>NaN\<close>. How pandas reads a number from a string is not part
  of this repository: it is the parameter \<open>parse\<close>.
\<close>

definition to_numeric :: "(string \<Rightarrow> real option) \<Rightarrow> cell \<Rightarrow> npfloat" where
  "to_numeric parse c =
     (case c of Float x \<Rightarrow> x
      | Text s \<Rightarrow> (case parse s of Some r \<Rightarrow> Fin r | None \<Rightarrow> NaN))"

record baseline_metrics =
  total_energy :: npfloat
  total_cost :: npfloat
  total_emissions :: npfloat

text \<open>
  The function assigns the coerced column to the caller's table (line 21), so the model
  returns the table with the metrics. Line 21 reads the column before the check of line 24
  looks for it.
\<close>

definition calculate_baseline ::
  "(string \<Rightarrow> real option) \<Rightarrow> dataframe \<Rightarrow> real \<Rightarrow> real
     \<Rightarrow> error + dataframe \<times> baseline_metrics" where
  "calculate_baseline parse data energy_price_per_kwh emission_factor_non_renewable =
     (case data WORKLOAD_ENERGY of None \<Rightarrow> Inl (KeyError WORKLOAD_ENERGY)
      | Some column \<Rightarrow>
          (let numeric = map (to_numeric parse) column;
               data' = data(WORKLOAD_ENERGY \<mapsto> map Float numeric)
           in if WORKLOAD_ENERGY \<notin> dom data'
              then Inl (ValueError
                     ''Data must contain a 'Workload Energy Consumption (kWh)' column.'')
              else (let total_energy' = series_sum numeric;
                        total_cost' = total_energy' * Fin energy_price_per_kwh;
                        total_emissions' = total_energy' * Fin emission_factor_non_renewable
                    in Inr (data', \<lparr> total_energy = total_energy',
                                     total_cost = total_cost',
                                     total_emissions = total_emissions' \<rparr>))))"

section \<open>The variant \<open>run_simulation\<close> of \<open>simulator.py\<close>\<close>

text \<open>
  This variant computes on the columns of the table (pandas Series) and assigns three
  derived columns to the caller's table, so the model returns the table with the results.
  The results are a Python dict: a map from the key to the number.
\<close>

abbreviation BASELINE_EMISSIONS :: string where
  "BASELINE_EMISSIONS \<equiv> ''Baseline Emissions''"

abbreviation OPTIMIZED_ENERGY :: string where
  "OPTIMIZED_ENERGY \<equiv> ''Optimized Energy''"

abbreviation OPTIMIZED_EMISSIONS :: string where
  "OPTIMIZED_EMISSIONS \<equiv> ''Optimized Emissions''"

text \<open>\<open>energy * f_non_renewable * (1 - availability / 100)
   + energy * f_renewable * (availability / 100)\<close>, row by row.\<close>

definition series_emissions :: "npfloat list \<Rightarrow> npfloat list \<Rightarrow> real \<Rightarrow> real \<Rightarrow> npfloat list" where
  "series_emissions energy availability_pct emission_factor_non_renewable
       emission_factor_renewable =
     map2 (+)
       (map2 (*) (map (\<lambda>w. w * Fin emission_factor_non_renewable) energy)
                 (map (\<lambda>a. Fin 1 - np_divide a (Fin 100)) availability_pct))
       (map2 (*) (map (\<lambda>w. w * Fin emission_factor_renewable) energy)
                 (map (\<lambda>a. np_divide a (Fin 100)) availability_pct))"

text \<open>\<open>np.where(availability >= renewable_threshold * 100, workload, workload * 0.9)\<close>.\<close>

definition favor_renewable_hours :: "npfloat list \<Rightarrow> npfloat list \<Rightarrow> real \<Rightarrow> npfloat list" where
  "favor_renewable_hours availability_pct workload renewable_threshold =
     map2 (\<lambda>a w. if a \<ge> Fin (renewable_threshold * 100) then w else w * Fin 0.9)
       availability_pct workload"

definition simulator_run_simulation ::
  "dataframe \<Rightarrow> real \<Rightarrow> real \<Rightarrow> real \<Rightarrow> real
     \<Rightarrow> error + dataframe \<times> (string \<Rightarrow> npfloat option)" where
  "simulator_run_simulation data renewable_threshold energy_price_per_kwh
       emission_factor_non_renewable emission_factor_renewable =
     (case data WORKLOAD_ENERGY of
        None \<Rightarrow> Inl (KeyError WORKLOAD_ENERGY)
      | Some workload_column \<Rightarrow>
     (case float_values workload_column of
        Inl e \<Rightarrow> Inl e
      | Inr workload \<Rightarrow>
     (case data RENEWABLE_AVAILABILITY of
        None \<Rightarrow> Inl (KeyError RENEWABLE_AVAILABILITY)
      | Some availability_column \<Rightarrow>
     (case float_values availability_column of
        Inl e \<Rightarrow> Inl e
      | Inr availability_pct \<Rightarrow>
        (let baseline_emissions = series_emissions workload availability_pct
               emission_factor_non_renewable emission_factor_renewable;
             optimized_energy =
               favor_renewable_hours availability_pct workload renewable_threshold;
             optimized_emissions = series_emissions optimized_energy availability_pct
               emission_factor_non_renewable emission_factor_renewable;
             data' = data(BASELINE_EMISSIONS \<mapsto> map Float baseline_emissions,
                          OPTIMIZED_ENERGY \<mapsto> map Float optimized_energy,
                          OPTIMIZED_EMISSIONS \<mapsto> map Float optimized_emissions);
             baseline_cost = series_sum (map (\<lambda>w. w * Fin energy_price_per_kwh) workload);
             optimized_cost =
               series_sum (map (\<lambda>w. w * Fin energy_price_per_kwh) optimized_energy)
         in Inr (data',
              [''baseline_energy'' \<mapsto> series_sum workload,
               ''optimized_energy'' \<mapsto> series_sum optimized_energy,
               ''energy_savings'' \<mapsto> series_sum workload - series_sum optimized_energy,
               ''baseline_cost'' \<mapsto> baseline_cost,
               ''optimized_cost'' \<mapsto> optimized_cost,
               ''cost_savings'' \<mapsto> baseline_cost - optimized_cost,
               ''baseline_emissions'' \<mapsto> series_sum baseline_emissions,
               ''optimized_emissions'' \<mapsto> series_sum optimized_emissions,
               ''emissions_savings'' \<mapsto>
                 series_sum baseline_emissions - series_sum optimized_emissions]))))))"

section \<open>Validated tables\<close>

text \<open>
  The table the data model of the specification describes: the four columns are present,
  price, availability and workload hold numbers, and all columns have one length.
\<close>

definition validated_table ::
  "dataframe \<Rightarrow> cell list \<Rightarrow> real list \<Rightarrow> real list \<Rightarrow> real list \<Rightarrow> bool" where
  "validated_table data timestamps prices availability workload \<longleftrightarrow>
     data TIMESTAMP = Some timestamps
     \<and> data ENERGY_PRICE = Some (map num prices)
     \<and> data RENEWABLE_AVAILABILITY = Some (map num availability)
     \<and> data WORKLOAD_ENERGY = Some (map num workload)
     \<and> length prices = length timestamps
     \<and> length availability = length timestamps
     \<and> length workload = length timestamps"

fun is_finite :: "npfloat \<Rightarrow> bool" where
  "is_finite (Fin x) = True"
| "is_finite NaN = False"

text \<open>
  The emissions of one slot on real numbers, with the arithmetic of lines 44 to 49:
  workload \<open>w\<close>, renewable fraction \<open>a\<close>.
\<close>

definition slot_emissions :: "real \<Rightarrow> real \<Rightarrow> real \<Rightarrow> real \<Rightarrow> real" where
  "slot_emissions emission_factor_non_renewable emission_factor_renewable w a =
     (w - w * a) * emission_factor_non_renewable + w * a * emission_factor_renewable"

section \<open>The scenario of the specification\<close>

definition scenario :: dataframe where
  "scenario =
     [TIMESTAMP \<mapsto> [Text ''2024-01-01 00:00'', Text ''2024-01-01 01:00'', Text ''2024-01-01 02:00''],
      WORKLOAD_ENERGY \<mapsto> [num 10, num 10, num 10],
      RENEWABLE_AVAILABILITY \<mapsto> [num 80, num 50, num 30],
      ENERGY_PRICE \<mapsto> [num 0.1, num 0.1, num 0.1]]"

section \<open>Arithmetic of finite floats\<close>

lemma Fin_plus [simp]: "Fin x + Fin y = Fin (x + y)"
  by (simp add: plus_npfloat_def)

lemma Fin_minus [simp]: "Fin x - Fin y = Fin (x - y)"
  by (simp add: minus_npfloat_def)

lemma Fin_times [simp]: "Fin x * Fin y = Fin (x * y)"
  by (simp add: times_npfloat_def)

lemma Fin_divide [simp]: "y \<noteq> 0 \<Longrightarrow> np_divide (Fin x) (Fin y) = Fin (x / y)"
  by (simp add: np_divide_def)

lemma Fin_le [simp]: "Fin x \<le> Fin y \<longleftrightarrow> x \<le> y"
  by (simp add: less_eq_npfloat_def)

lemma Fin_less [simp]: "Fin x < Fin y \<longleftrightarrow> x < y"
  by (simp add: less_npfloat_def)

lemma py_min_Fin [simp]: "py_min (Fin x) (Fin y) = Fin (min x y)"
  by (simp add: py_min_def min_def)

lemma np_maximum_Fin [simp]: "np_maximum (Fin x) (Fin y) = Fin (max x y)"
  by (simp add: np_maximum_def)

lemma float_values_Float: "float_values (map Float xs) = Inr xs"
  by (induction xs) auto

lemma float_values_num: "float_values (map num xs) = Inr (map Fin xs)"
  using float_values_Float [of "map Fin xs"] by (simp add: comp_def)

lemma run_simulation_validated:
  "validated_table data ts ps as ws \<Longrightarrow> run_simulation data thr enr er =
     Inr (simulate ts (map Fin ps) (availability_fraction (map Fin as)) (map Fin ws) thr enr er)"
  by (simp add: validated_table_def run_simulation_def float_values_num)

lemma foldl_plus_Fin: "foldl (+) (Fin a) (map Fin xs) = Fin (a + sum_list xs)"
  by (induction xs arbitrary: a) (auto simp: add.assoc)

lemma np_sum_Fin: "np_sum (map Fin xs) = Fin (sum_list xs)"
  by (simp add: np_sum_def foldl_plus_Fin)

lemma is_finite_plus [simp]: "is_finite a \<Longrightarrow> is_finite b \<Longrightarrow> is_finite (a + b)"
  by (cases a; cases b) simp_all

lemma is_finite_minus [simp]: "is_finite a \<Longrightarrow> is_finite b \<Longrightarrow> is_finite (a - b)"
  by (cases a; cases b) simp_all

lemma is_finite_times [simp]: "is_finite a \<Longrightarrow> is_finite b \<Longrightarrow> is_finite (a * b)"
  by (cases a; cases b) simp_all

lemma is_finite_py_min [simp]: "is_finite a \<Longrightarrow> is_finite b \<Longrightarrow> is_finite (py_min a b)"
  by (simp add: py_min_def)

lemma length_increase_workload [simp]:
  "length (increase_workload i n optimal wl opt e) = length opt"
  by (induction i n optimal wl opt e rule: increase_workload.induct)
    (subst increase_workload.simps, simp add: Let_def)

lemma length_decrease_workload [simp]:
  "length (decrease_workload i n optimal wl opt) = length opt"
  by (induction i n optimal wl opt rule: decrease_workload.induct)
    (subst decrease_workload.simps, simp add: Let_def)




lemma increase_workload_done:
  "\<not> i < n \<Longrightarrow> increase_workload i n optimal wl opt e = opt"
  by (subst increase_workload.simps) simp

lemma increase_workload_skip:
  "i < n \<Longrightarrow> \<not> optimal ! i
     \<Longrightarrow> increase_workload i n optimal wl opt e = increase_workload (Suc i) n optimal wl opt e"
  by (subst increase_workload.simps) simp

lemma increase_workload_break:
  "i < n \<Longrightarrow> optimal ! i \<Longrightarrow> e - py_min e (wl ! i * Fin 0.2) \<le> Fin 0
     \<Longrightarrow> increase_workload i n optimal wl opt e = opt[i := opt ! i + py_min e (wl ! i * Fin 0.2)]"
  by (subst increase_workload.simps) (simp add: Let_def)

lemma increase_workload_shift:
  "i < n \<Longrightarrow> optimal ! i \<Longrightarrow> \<not> e - py_min e (wl ! i * Fin 0.2) \<le> Fin 0
     \<Longrightarrow> increase_workload i n optimal wl opt e =
         increase_workload (Suc i) n optimal wl (opt[i := opt ! i + py_min e (wl ! i * Fin 0.2)])
           (e - py_min e (wl ! i * Fin 0.2))"
  by (subst increase_workload.simps) (simp add: Let_def)

lemma decrease_workload_done:
  "\<not> i < n \<Longrightarrow> decrease_workload i n optimal wl opt = opt"
  by (subst decrease_workload.simps) simp

lemma decrease_workload_skip:
  "i < n \<Longrightarrow> optimal ! i
     \<Longrightarrow> decrease_workload i n optimal wl opt = decrease_workload (Suc i) n optimal wl opt"
  by (subst decrease_workload.simps) simp

lemma decrease_workload_reduce:
  "i < n \<Longrightarrow> \<not> optimal ! i
     \<Longrightarrow> decrease_workload i n optimal wl opt =
         decrease_workload (Suc i) n optimal wl (opt[i := opt ! i - wl ! i * Fin 0.1])"
  by (subst decrease_workload.simps) (simp add: Let_def)

lemma finite_update:
  "\<forall>x\<in>set xs. is_finite x \<Longrightarrow> is_finite y \<Longrightarrow> \<forall>x\<in>set (xs[i := y]). is_finite x"
  using set_update_subset_insert [of xs i y] by auto

lemma increase_workload_finite:
  "n \<le> length wl \<Longrightarrow> n \<le> length opt \<Longrightarrow> \<forall>x\<in>set wl. is_finite x
     \<Longrightarrow> \<forall>x\<in>set opt. is_finite x \<Longrightarrow> is_finite e
     \<Longrightarrow> \<forall>x\<in>set (increase_workload i n optimal wl opt e). is_finite x"
proof (induction "n - i" arbitrary: i opt e)
  case 0
  then show ?case by (simp add: increase_workload_done)
next
  case (Suc k)
  then have lt: "i < n" and k: "k = n - Suc i" by simp_all
  let ?shift = "py_min e (wl ! i * Fin 0.2)"
  let ?opt' = "opt[i := opt ! i + ?shift]"
  from lt Suc.prems have fw: "is_finite (wl ! i)" and fo: "is_finite (opt ! i)" by simp_all
  with Suc.prems have fs: "is_finite ?shift" by simp
  with fo Suc.prems have fo': "\<forall>x\<in>set ?opt'. is_finite x"
    by (intro finite_update) simp_all
  show ?case
  proof (cases "optimal ! i")
    case False
    with lt Suc.hyps(1)[OF k Suc.prems] show ?thesis
      by (simp add: increase_workload_skip)
  next
    case True
    show ?thesis
    proof (cases "e - ?shift \<le> Fin 0")
      case True
      with lt \<open>optimal ! i\<close> fo' show ?thesis
        by (simp add: increase_workload_break)
    next
      case False
      have "\<forall>x\<in>set (increase_workload (Suc i) n optimal wl ?opt' (e - ?shift)). is_finite x"
        using Suc.prems fo' fs by (intro Suc.hyps(1)[OF k]) simp_all
      with lt \<open>optimal ! i\<close> False show ?thesis
        by (simp add: increase_workload_shift)
    qed
  qed
qed

lemma decrease_workload_finite:
  "n \<le> length wl \<Longrightarrow> n \<le> length opt \<Longrightarrow> \<forall>x\<in>set wl. is_finite x
     \<Longrightarrow> \<forall>x\<in>set opt. is_finite x
     \<Longrightarrow> \<forall>x\<in>set (decrease_workload i n optimal wl opt). is_finite x"
proof (induction "n - i" arbitrary: i opt)
  case 0
  then show ?case by (simp add: decrease_workload_done)
next
  case (Suc k)
  then have lt: "i < n" and k: "k = n - Suc i" by simp_all
  let ?opt' = "opt[i := opt ! i - wl ! i * Fin 0.1]"
  from lt Suc.prems have fw: "is_finite (wl ! i)" and fo: "is_finite (opt ! i)" by simp_all
  with Suc.prems have fo': "\<forall>x\<in>set ?opt'. is_finite x"
    by (intro finite_update) simp_all
  show ?case
  proof (cases "optimal ! i")
    case True
    with lt Suc.hyps(1)[OF k Suc.prems] show ?thesis
      by (simp add: decrease_workload_skip)
  next
    case False
    have "\<forall>x\<in>set (decrease_workload (Suc i) n optimal wl ?opt'). is_finite x"
      using Suc.prems fo' by (intro Suc.hyps(1)[OF k]) simp_all
    with lt False show ?thesis
      by (simp add: decrease_workload_reduce)
  qed
qed

section \<open>The fields of the engine's result\<close>

lemma simulate_df_optimized:
  "df (simulate ts ps ra wl thr enr er) ''Optimized Energy (kWh)''
     = Some (map Float (optimized_workload (length ts) wl ra thr))"
  by (simp add: simulate_def Let_def)

lemma simulate_df_baseline:
  "df (simulate ts ps ra wl thr enr er) ''Baseline Energy (kWh)'' = Some (map Float wl)"
  by (simp add: simulate_def Let_def)

lemma simulate_total_optimized_energy:
  "total_optimized_energy (simulate ts ps ra wl thr enr er)
     = np_sum (optimized_workload (length ts) wl ra thr)"
  by (simp add: simulate_def Let_def)

lemma simulate_total_baseline_energy:
  "total_baseline_energy (simulate ts ps ra wl thr enr er) = np_sum wl"
  by (simp add: simulate_def Let_def)

lemma simulate_energy_savings:
  "energy_savings (simulate ts ps ra wl thr enr er)
     = np_sum wl - np_sum (optimized_workload (length ts) wl ra thr)"
  by (simp add: simulate_def Let_def)

lemma simulate_total_baseline_emissions:
  "total_baseline_emissions (simulate ts ps ra wl thr enr er) = np_sum (emissions wl ra enr er)"
  by (simp add: simulate_def Let_def)

lemma simulate_carbon_footprint_impact:
  "carbon_footprint_impact (simulate ts ps ra wl thr enr er)
     = carbon_footprint
         (np_sum (emissions wl ra enr er)
            - np_sum (emissions (optimized_workload (length ts) wl ra thr) ra enr er))
         (np_sum (emissions wl ra enr er))"
  by (simp add: simulate_def Let_def)

section \<open>The concrete scenario\<close>

lemma scenario_schedule:
  "optimized_workload 3 [Fin 10, Fin 10, Fin 10] [Fin (4 / 5), Fin (1 / 2), Fin (3 / 10)] (7 / 10)
     = [Fin 12, Fin 9, Fin 9]"
  by (simp add: optimized_workload_def optimal_hours_def total_energy_to_shift_def
      boolean_index_def np_sum_def increase_workload.simps decrease_workload.simps)

text \<open>
  C1. On three slots with workload 10, 10, 10 kWh, availability 80, 50, 30 percent, price
  0.1 and threshold 0.7 (emission factors 0.5 and 0.02), the engine classifies slot 1 as
  optimal and slots 2 and 3 as not optimal, computes the deficit 6, adds 2 kWh (the cap of
  20 percent) to slot 1 and leaves 4 unplaced, takes 10 percent off slots 2 and 3, and
  returns the optimized energy 12, 9, 9 with total 30, the baseline total 30 and energy
  savings 0.
\<close>

theorem scenario_result:
  "(let workload_energy = [Fin 10, Fin 10, Fin 10];
        renewable_availability = availability_fraction [Fin 80, Fin 50, Fin 30];
        optimal = optimal_hours renewable_availability 0.7;
        deficit = total_energy_to_shift workload_energy renewable_availability 0.7;
        increased = increase_workload 0 3 optimal workload_energy workload_energy deficit
    in optimal = [True, False, False]
       \<and> deficit = Fin 6
       \<and> py_min deficit (workload_energy ! 0 * Fin 0.2) = Fin 2
       \<and> deficit - py_min deficit (workload_energy ! 0 * Fin 0.2) = Fin 4
       \<and> increased = [Fin 12, Fin 10, Fin 10]
       \<and> decrease_workload 0 3 optimal workload_energy increased = [Fin 12, Fin 9, Fin 9])
   \<and> (case run_simulation scenario 0.7 0.5 0.02 of
         Inl e \<Rightarrow> False
       | Inr r \<Rightarrow>
           df r ''Optimized Energy (kWh)'' = Some [num 12, num 9, num 9]
           \<and> total_optimized_energy r = Fin 30
           \<and> total_baseline_energy r = Fin 30
           \<and> energy_savings r = Fin 0)"
proof -
  have steps:
    "(let workload_energy = [Fin 10, Fin 10, Fin 10];
          renewable_availability = availability_fraction [Fin 80, Fin 50, Fin 30];
          optimal = optimal_hours renewable_availability 0.7;
          deficit = total_energy_to_shift workload_energy renewable_availability 0.7;
          increased = increase_workload 0 3 optimal workload_energy workload_energy deficit
      in optimal = [True, False, False]
         \<and> deficit = Fin 6
         \<and> py_min deficit (workload_energy ! 0 * Fin 0.2) = Fin 2
         \<and> deficit - py_min deficit (workload_energy ! 0 * Fin 0.2) = Fin 4
         \<and> increased = [Fin 12, Fin 10, Fin 10]
         \<and> decrease_workload 0 3 optimal workload_energy increased = [Fin 12, Fin 9, Fin 9])"
    by (simp add: availability_fraction_def optimal_hours_def total_energy_to_shift_def
        boolean_index_def np_sum_def increase_workload.simps decrease_workload.simps)
  have run: "run_simulation scenario 0.7 0.5 0.02 =
      Inr (simulate [Text ''2024-01-01 00:00'', Text ''2024-01-01 01:00'', Text ''2024-01-01 02:00'']
             [Fin (1 / 10), Fin (1 / 10), Fin (1 / 10)]
             [Fin (4 / 5), Fin (1 / 2), Fin (3 / 10)] [Fin 10, Fin 10, Fin 10]
             (7 / 10) (1 / 2) (1 / 50))"
    by (simp add: run_simulation_def scenario_def availability_fraction_def)
  have result: "(case run_simulation scenario 0.7 0.5 0.02 of
         Inl e \<Rightarrow> False
       | Inr r \<Rightarrow>
           df r ''Optimized Energy (kWh)'' = Some [num 12, num 9, num 9]
           \<and> total_optimized_energy r = Fin 30
           \<and> total_baseline_energy r = Fin 30
           \<and> energy_savings r = Fin 0)"
  proof -
    have len: "length [Text ''2024-01-01 00:00'', Text ''2024-01-01 01:00'', Text ''2024-01-01 02:00'']
        = 3"
      by simp
    show ?thesis
      by (subst run)
        (simp only: sum.case simulate_df_optimized simulate_total_optimized_energy
          simulate_total_baseline_energy simulate_energy_savings len scenario_schedule,
          simp add: np_sum_def)
  qed
  from steps result show ?thesis by (rule conjI)
qed

section \<open>The missing workload column\<close>

text \<open>
  C6. On a table without the workload column the estimator fails with the \<open>KeyError\<close> of
  line 21, whatever else the table holds, and the \<open>ValueError\<close> of its column check
  (line 25) is raised on no table at all.
\<close>

theorem calculate_baseline_missing_column:
  "calculate_baseline parse (data(WORKLOAD_ENERGY := None)) price factor
     = Inl (KeyError WORKLOAD_ENERGY)
   \<and> calculate_baseline parse data' price factor \<noteq> Inl (ValueError message)"
  by (simp add: calculate_baseline_def Let_def split: option.split)

section \<open>Finite inputs give finite, non-negative optimized energy\<close>

lemma boolean_index_map: "boolean_index (map f xs) m = map f (boolean_index xs m)"
  by (simp add: boolean_index_def zip_map1 filter_map comp_def case_prod_unfold)

lemma map2_times_Fin: "map2 (*) (map Fin xs) (map Fin ys) = map Fin (map2 (*) xs ys)"
  by (induction xs ys rule: list_induct2') simp_all

lemma availability_fraction_Fin:
  "availability_fraction (map Fin as) = map Fin (map (\<lambda>a. a / 100) as)"
  by (simp add: availability_fraction_def)

lemma total_energy_to_shift_Fin:
  "total_energy_to_shift (map Fin ws) (map Fin rs) thr =
     Fin (sum_list (map2 (*)
       (boolean_index ws (map Not (optimal_hours (map Fin rs) thr)))
       (map (\<lambda>a. thr - a) (boolean_index rs (map Not (optimal_hours (map Fin rs) thr))))))"
proof -
  have "map (\<lambda>a. Fin thr - a) (map Fin bs) = map Fin (map (\<lambda>a. thr - a) bs)" for bs
    by simp
  then show ?thesis
    unfolding total_energy_to_shift_def Let_def boolean_index_map
    by (simp only: map2_times_Fin np_sum_Fin)
qed

lemma total_energy_to_shift_finite:
  "is_finite (total_energy_to_shift (map Fin ws) (map Fin rs) thr)"
  by (simp add: total_energy_to_shift_Fin)

lemma nonneg_np_maximum: "is_finite x \<Longrightarrow> Fin 0 \<le> np_maximum x (Fin 0)"
  by (cases x) simp_all

lemma optimized_workload_nonneg:
  assumes "n \<le> length ws"
  shows "\<forall>x\<in>set (optimized_workload n (map Fin ws) (map Fin rs) thr). Fin 0 \<le> x"
proof -
  let ?wl = "map Fin ws"
  let ?optimal = "optimal_hours (map Fin rs) thr"
  let ?inc = "increase_workload 0 n ?optimal ?wl ?wl (total_energy_to_shift ?wl (map Fin rs) thr)"
  have fw: "\<forall>x\<in>set ?wl. is_finite x" by simp
  have "\<forall>x\<in>set ?inc. is_finite x"
    using assms fw by (intro increase_workload_finite total_energy_to_shift_finite) simp_all
  then have "\<forall>x\<in>set (decrease_workload 0 n ?optimal ?wl ?inc). is_finite x"
    using assms fw by (intro decrease_workload_finite) simp_all
  then show ?thesis
    by (simp add: optimized_workload_def Let_def nonneg_np_maximum)
qed

lemma scenario_validated:
  "validated_table scenario
     [Text ''2024-01-01 00:00'', Text ''2024-01-01 01:00'', Text ''2024-01-01 02:00'']
     [0.1, 0.1, 0.1] [80, 50, 30] [10, 10, 10]"
  by (simp add: validated_table_def scenario_def)

text \<open>
  C4. On every validated table and for every threshold and emission factors, the engine
  returns a result whose optimized energy column holds only values that are at least 0
  (and so are numbers).
\<close>

theorem optimized_energy_nonnegative:
  assumes "validated_table data timestamps prices availability workload"
  shows "\<exists>r xs. run_simulation data renewable_threshold emission_factor_non_renewable
             emission_factor_renewable = Inr r
           \<and> df r ''Optimized Energy (kWh)'' = Some (map Float xs)
           \<and> (\<forall>x\<in>set xs. Fin 0 \<le> x)"
proof -
  from assms have len: "length timestamps \<le> length workload"
    by (simp add: validated_table_def)
  let ?xs = "optimized_workload (length timestamps) (map Fin workload)
      (availability_fraction (map Fin availability)) renewable_threshold"
  have "\<forall>x\<in>set ?xs. Fin 0 \<le> x"
    unfolding availability_fraction_Fin by (rule optimized_workload_nonneg [OF len])
  then show ?thesis
    by (intro exI [of _ ?xs] exI [of _ "simulate timestamps (map Fin prices)
          (availability_fraction (map Fin availability)) (map Fin workload) renewable_threshold
          emission_factor_non_renewable emission_factor_renewable"])
      (simp add: run_simulation_validated [OF assms] simulate_df_optimized)
qed

theorem optimized_energy_nonnegative_witness:
  "validated_table scenario
     [Text ''2024-01-01 00:00'', Text ''2024-01-01 01:00'', Text ''2024-01-01 02:00'']
     [0.1, 0.1, 0.1] [80, 50, 30] [10, 10, 10]
   \<and> (\<exists>r xs. run_simulation scenario 0.7 0.5 0.02 = Inr r
          \<and> df r ''Optimized Energy (kWh)'' = Some (map Float xs)
          \<and> (\<forall>x\<in>set xs. Fin 0 \<le> x))"
  using optimized_energy_nonnegative [OF scenario_validated, of "0.7" "0.5" "0.02"]
    scenario_validated by (rule conjI [rotated])

section \<open>Threshold zero and the threshold boundary\<close>

lemma optimal_hours_length [simp]: "length (optimal_hours ra thr) = length ra"
  by (simp add: optimal_hours_def)

lemma optimal_hours_nth:
  "i < length ra \<Longrightarrow> optimal_hours ra thr ! i \<longleftrightarrow> Fin thr \<le> ra ! i"
  by (simp add: optimal_hours_def)

lemma optimal_hours_all:
  "\<forall>a\<in>set as. 0 \<le> a
     \<Longrightarrow> optimal_hours (availability_fraction (map Fin as)) 0 = replicate (length as) True"
  by (induction as) (simp_all add: optimal_hours_def availability_fraction_def)

lemma boolean_index_none: "boolean_index xs (replicate n False) = []"
proof -
  have "\<forall>p\<in>set (zip xs (replicate n False)). \<not> snd p"
    by (auto dest: set_zip_rightD)
  then show ?thesis
    unfolding boolean_index_def by (simp add: filter_False)
qed

lemma total_energy_to_shift_all_optimal:
  "optimal_hours ra thr = replicate n True \<Longrightarrow> total_energy_to_shift wl ra thr = Fin 0"
  by (simp add: total_energy_to_shift_def boolean_index_none np_sum_def)

lemma plus_Fin_0 [simp]: "x + Fin 0 = x"
  by (cases x) (simp_all add: plus_npfloat_def)

lemma increase_workload_nothing_to_shift:
  "n \<le> length ws \<Longrightarrow> \<forall>w\<in>set ws. 0 \<le> w
     \<Longrightarrow> increase_workload i n optimal (map Fin ws) opt (Fin 0) = opt"
proof (induction "n - i" arbitrary: i)
  case 0
  then show ?case by (simp add: increase_workload_done)
next
  case (Suc k)
  then have lt: "i < n" and k: "k = n - Suc i" by simp_all
  show ?case
  proof (cases "optimal ! i")
    case False
    with lt Suc.hyps(1)[OF k Suc.prems] show ?thesis
      by (simp add: increase_workload_skip)
  next
    case True
    from lt Suc.prems have "0 \<le> ws ! i" and "i < length ws" by simp_all
    then have shift: "py_min (Fin 0) (map Fin ws ! i * Fin 0.2) = Fin 0"
      by simp
    from lt True show ?thesis
      by (subst increase_workload_break) (simp_all only: shift Fin_minus Fin_le plus_Fin_0
          list_update_id diff_self order_refl)
  qed
qed

lemma decrease_workload_nth_optimal:
  "optimal ! j \<Longrightarrow> decrease_workload i n optimal wl opt ! j = opt ! j"
proof (induction "n - i" arbitrary: i opt)
  case 0
  then show ?case by (simp add: decrease_workload_done)
next
  case (Suc k)
  then have lt: "i < n" and k: "k = n - Suc i" by simp_all
  show ?case
  proof (cases "optimal ! i")
    case True
    with lt Suc.hyps(1)[OF k Suc.prems] show ?thesis
      by (simp add: decrease_workload_skip)
  next
    case False
    with Suc.prems have "i \<noteq> j" by auto
    with lt False Suc.hyps(1)[OF k Suc.prems, of "opt[i := opt ! i - wl ! i * Fin 0.1]"]
    show ?thesis
      by (simp add: decrease_workload_reduce)
  qed
qed

lemma decrease_workload_all_optimal:
  "\<forall>j<n. optimal ! j \<Longrightarrow> decrease_workload i n optimal wl opt = opt"
proof (induction "n - i" arbitrary: i)
  case 0
  then show ?case by (simp add: decrease_workload_done)
next
  case (Suc k)
  then have lt: "i < n" and k: "k = n - Suc i" by simp_all
  with Suc.prems have "optimal ! i" by simp
  with lt Suc.hyps(1)[OF k Suc.prems] show ?case
    by (simp add: decrease_workload_skip)
qed

lemma np_maximum_nonneg: "\<forall>w\<in>set ws. 0 \<le> w \<Longrightarrow> map (\<lambda>x. np_maximum x (Fin 0)) (map Fin ws) = map Fin ws"
  by (induction ws) simp_all

text \<open>
  C3. On a validated table with availability between 0 and 100 percent and non-negative
  workloads, the engine run with threshold 0 classifies every slot as optimal, computes the
  deficit 0, takes the 10 percent off no slot, and returns the optimized energy equal to
  the baseline energy, slot by slot and in total.
\<close>

theorem threshold_zero_keeps_baseline:
  fixes data :: dataframe and workload availability :: "real list"
  defines "wl \<equiv> map Fin workload"
    and "ra \<equiv> availability_fraction (map Fin availability)"
  assumes table: "validated_table data timestamps prices availability workload"
    and avail: "\<forall>a\<in>set availability. 0 \<le> a \<and> a \<le> 100"
    and work: "\<forall>w\<in>set workload. 0 \<le> w"
  shows "optimal_hours ra 0 = replicate (length timestamps) True
    \<and> total_energy_to_shift wl ra 0 = Fin 0
    \<and> decrease_workload 0 (length timestamps) (optimal_hours ra 0) wl
          (increase_workload 0 (length timestamps) (optimal_hours ra 0) wl wl
             (total_energy_to_shift wl ra 0))
        = increase_workload 0 (length timestamps) (optimal_hours ra 0) wl wl
             (total_energy_to_shift wl ra 0)
    \<and> (\<exists>r. run_simulation data 0 emission_factor_non_renewable emission_factor_renewable = Inr r
          \<and> df r ''Optimized Energy (kWh)'' = Some (map num workload)
          \<and> df r ''Baseline Energy (kWh)'' = Some (map num workload)
          \<and> total_optimized_energy r = Fin (sum_list workload)
          \<and> total_baseline_energy r = Fin (sum_list workload)
          \<and> energy_savings r = Fin 0)"
proof -
  let ?n = "length timestamps"
  from table have len: "length availability = ?n" "length workload = ?n"
    by (simp_all add: validated_table_def)
  from avail have "\<forall>a\<in>set availability. 0 \<le> a" by simp
  then have optimal: "optimal_hours ra 0 = replicate ?n True"
    unfolding ra_def using len by (simp add: optimal_hours_all)
  then have deficit: "total_energy_to_shift wl ra 0 = Fin 0"
    by (rule total_energy_to_shift_all_optimal)
  have all: "\<forall>j<?n. optimal_hours ra 0 ! j"
    by (simp add: optimal)
  have dec: "decrease_workload 0 ?n (optimal_hours ra 0) wl xs = xs" for xs
    using all by (rule decrease_workload_all_optimal)
  have inc: "increase_workload 0 ?n (optimal_hours ra 0) wl wl (Fin 0) = wl"
    unfolding wl_def using len work by (intro increase_workload_nothing_to_shift) simp_all
  have schedule: "optimized_workload ?n wl ra 0 = wl"
    unfolding optimized_workload_def Let_def deficit inc dec
    unfolding wl_def using work by (rule np_maximum_nonneg)
  have run: "run_simulation data 0 emission_factor_non_renewable emission_factor_renewable =
      Inr (simulate timestamps (map Fin prices) ra wl 0 emission_factor_non_renewable
             emission_factor_renewable)"
    unfolding ra_def wl_def by (rule run_simulation_validated [OF table])
  have result: "\<exists>r. run_simulation data 0 emission_factor_non_renewable emission_factor_renewable = Inr r
          \<and> df r ''Optimized Energy (kWh)'' = Some (map num workload)
          \<and> df r ''Baseline Energy (kWh)'' = Some (map num workload)
          \<and> total_optimized_energy r = Fin (sum_list workload)
          \<and> total_baseline_energy r = Fin (sum_list workload)
          \<and> energy_savings r = Fin 0"
    unfolding run
    by (simp add: simulate_df_optimized simulate_df_baseline simulate_total_optimized_energy
        simulate_total_baseline_energy simulate_energy_savings schedule)
      (simp add: wl_def np_sum_Fin)
  from optimal deficit dec result show ?thesis by simp
qed

theorem threshold_zero_keeps_baseline_witness:
  "validated_table scenario
     [Text ''2024-01-01 00:00'', Text ''2024-01-01 01:00'', Text ''2024-01-01 02:00'']
     [0.1, 0.1, 0.1] [80, 50, 30] [10, 10, 10]
   \<and> optimal_hours (availability_fraction [Fin 80, Fin 50, Fin 30]) 0 = [True, True, True]
   \<and> total_energy_to_shift [Fin 10, Fin 10, Fin 10]
         (availability_fraction [Fin 80, Fin 50, Fin 30]) 0 = Fin 0
   \<and> (\<exists>r. run_simulation scenario 0 0.5 0.02 = Inr r
          \<and> df r ''Optimized Energy (kWh)'' = Some [num 10, num 10, num 10]
          \<and> df r ''Baseline Energy (kWh)'' = Some [num 10, num 10, num 10]
          \<and> total_optimized_energy r = Fin 30
          \<and> total_baseline_energy r = Fin 30
          \<and> energy_savings r = Fin 0)"
  using threshold_zero_keeps_baseline [OF scenario_validated, of "0.5" "0.02"] scenario_validated
  by (simp add: numeral_3_eq_3)

text \<open>
  C8. A slot whose availability fraction equals the threshold is classified as optimal
  (the comparison is \<open>\<ge>\<close>), the second loop leaves its energy as the first loop left it,
  and its optimized energy is that value clamped at 0: no 10 percent reduction.
\<close>

theorem threshold_boundary_is_optimal:
  fixes availability_pct workload_energy :: "npfloat list"
  defines "ra \<equiv> availability_fraction availability_pct"
  assumes slot: "i < length availability_pct" "i < length workload_energy"
    and boundary: "ra ! i = Fin renewable_threshold"
  shows "optimal_hours ra renewable_threshold ! i
    \<and> decrease_workload 0 n (optimal_hours ra renewable_threshold) workload_energy optimized ! i
        = optimized ! i
    \<and> optimized_workload n workload_energy ra renewable_threshold ! i
        = np_maximum
            (increase_workload 0 n (optimal_hours ra renewable_threshold) workload_energy
               workload_energy
               (total_energy_to_shift workload_energy ra renewable_threshold) ! i)
            (Fin 0)"
proof -
  from slot have "i < length ra" by (simp add: ra_def availability_fraction_def)
  with boundary have optimal: "optimal_hours ra renewable_threshold ! i"
    by (simp add: optimal_hours_nth)
  then have keep: "decrease_workload 0 n (optimal_hours ra renewable_threshold) workload_energy xs ! i
      = xs ! i" for xs
    by (rule decrease_workload_nth_optimal)
  from slot(2) have "optimized_workload n workload_energy ra renewable_threshold ! i
        = np_maximum
            (increase_workload 0 n (optimal_hours ra renewable_threshold) workload_energy
               workload_energy
               (total_energy_to_shift workload_energy ra renewable_threshold) ! i)
            (Fin 0)"
    by (simp add: optimized_workload_def Let_def keep)
  with optimal keep show ?thesis by simp
qed

theorem threshold_boundary_is_optimal_witness:
  "optimal_hours (availability_fraction [Fin 70, Fin 50]) 0.7 ! 0
   \<and> decrease_workload 0 2 (optimal_hours (availability_fraction [Fin 70, Fin 50]) 0.7)
         [Fin 10, Fin 10] [Fin 12, Fin 10] ! 0 = Fin 12"
  using threshold_boundary_is_optimal [where i = 0 and availability_pct = "[Fin 70, Fin 50]"
      and workload_energy = "[Fin 10, Fin 10]" and renewable_threshold = "0.7" and n = 2
      and optimized = "[Fin 12, Fin 10]"]
  by (simp add: availability_fraction_def)

section \<open>Emissions\<close>

lemma emissions_Fin:
  "emissions (map Fin ws) (map Fin rs) enr er = map Fin (map2 (slot_emissions enr er) ws rs)"
  by (induction ws rs rule: list_induct2') (simp_all add: emissions_def Let_def slot_emissions_def)

lemma slot_emissions_zero: "slot_emissions enr er 0 a = 0"
  by (simp add: slot_emissions_def)

lemma sum_zero_workload:
  "\<forall>w\<in>set ws. w = 0 \<Longrightarrow> sum_list (map2 (slot_emissions enr er) ws rs) = 0"
  by (induction ws rs rule: list_induct2') (simp_all add: slot_emissions_zero)

lemma carbon_footprint_zero_baseline: "carbon_footprint x (Fin 0) = Fin 0"
  by (simp add: carbon_footprint_def)

lemma np_divide_by_zero: "np_divide x (Fin 0) = NaN"
  by (cases x) (simp_all add: np_divide_def)

text \<open>
  C9. On a validated table whose workloads are all zero the baseline emissions are 0 and the
  engine returns the carbon footprint impact 0: the test of line 103 takes the fallback.
  The division it guards would give \<open>NaN\<close>.
\<close>

theorem zero_workload_zero_impact:
  assumes table: "validated_table data timestamps prices availability workload"
    and zero: "\<forall>w\<in>set workload. w = 0"
  shows "\<exists>r. run_simulation data renewable_threshold emission_factor_non_renewable
             emission_factor_renewable = Inr r
           \<and> total_baseline_emissions r = Fin 0
           \<and> carbon_footprint_impact r = Fin 0
           \<and> np_divide (emissions_reduction r) (total_baseline_emissions r) = NaN"
proof -
  let ?r = "simulate timestamps (map Fin prices) (availability_fraction (map Fin availability))
      (map Fin workload) renewable_threshold emission_factor_non_renewable
      emission_factor_renewable"
  have base: "total_baseline_emissions ?r = Fin 0"
    unfolding simulate_total_baseline_emissions availability_fraction_Fin emissions_Fin
      np_sum_Fin
    using zero by (simp add: sum_zero_workload)
  have "carbon_footprint_impact ?r = Fin 0"
    using base
    by (simp add: simulate_carbon_footprint_impact simulate_total_baseline_emissions
        carbon_footprint_zero_baseline)
  with base show ?thesis
    by (intro exI [of _ ?r]) (simp add: run_simulation_validated [OF table] np_divide_by_zero)
qed

theorem zero_workload_zero_impact_witness:
  "\<exists>r. run_simulation (scenario(WORKLOAD_ENERGY \<mapsto> [num 0, num 0, num 0])) 0.7 0.5 0.02 = Inr r
      \<and> total_baseline_emissions r = Fin 0
      \<and> carbon_footprint_impact r = Fin 0
      \<and> np_divide (emissions_reduction r) (total_baseline_emissions r) = NaN"
proof -
  have "validated_table (scenario(WORKLOAD_ENERGY \<mapsto> [num 0, num 0, num 0]))
      [Text ''2024-01-01 00:00'', Text ''2024-01-01 01:00'', Text ''2024-01-01 02:00'']
      [0.1, 0.1, 0.1] [80, 50, 30] [0, 0, 0]"
    by (simp add: validated_table_def scenario_def)
  then show ?thesis
    by (rule zero_workload_zero_impact) simp
qed

section \<open>The engine's baseline emissions against the estimator's\<close>





lemma series_sum_Fin: "series_sum (map Fin ws) = Fin (sum_list ws)"
  by (induction ws) simp_all

lemma to_numeric_Float [simp]: "to_numeric parse (Float x) = x"
  by (simp add: to_numeric_def)

lemma calculate_baseline_numeric:
  "data WORKLOAD_ENERGY = Some (map Float xs) \<Longrightarrow>
     calculate_baseline parse data price factor =
       Inr (data, \<lparr> total_energy = series_sum xs,
                    total_cost = series_sum xs * Fin price,
                    total_emissions = series_sum xs * Fin factor \<rparr>)"
proof -
  assume col: "data WORKLOAD_ENERGY = Some (map Float xs)"
  then have "data(WORKLOAD_ENERGY \<mapsto> map Float xs) = data"
    by (rule map_upd_triv)
  with col show ?thesis
    by (simp add: calculate_baseline_def Let_def comp_def)
qed



section \<open>The totals of the baseline estimator\<close>

text \<open>
  C5. On a table whose workload column holds numbers, the estimator returns the sum of the
  workloads as total energy, that sum times the price as total cost and that sum times the
  non-renewable emission factor as total emissions; the renewable availability column has
  no influence on the result.
\<close>

theorem baseline_totals:
  assumes "data WORKLOAD_ENERGY = Some (map num workload)"
  shows "calculate_baseline parse data price_per_kwh emission_factor_non_renewable =
           Inr (data, \<lparr> total_energy = Fin (sum_list workload),
                        total_cost = Fin (sum_list workload * price_per_kwh),
                        total_emissions = Fin (sum_list workload * emission_factor_non_renewable) \<rparr>)
         \<and> map_sum id snd (calculate_baseline parse (data(RENEWABLE_AVAILABILITY := column))
               price_per_kwh emission_factor_non_renewable)
             = map_sum id snd (calculate_baseline parse data price_per_kwh
                 emission_factor_non_renewable)"
proof -
  from assms have col: "data WORKLOAD_ENERGY = Some (map Float (map Fin workload))"
    by simp
  then have col': "(data(RENEWABLE_AVAILABILITY := column)) WORKLOAD_ENERGY
      = Some (map Float (map Fin workload))"
    by simp
  show ?thesis
    unfolding calculate_baseline_numeric [where data = data and xs = "map Fin workload", OF col]
      calculate_baseline_numeric [where data = "data(RENEWABLE_AVAILABILITY := column)"
        and xs = "map Fin workload", OF col']
    by (simp add: series_sum_Fin)
qed

theorem baseline_totals_witness:
  "calculate_baseline Map.empty scenario 0.1 0.5 =
     Inr (scenario, \<lparr> total_energy = Fin 30, total_cost = Fin 3, total_emissions = Fin 15 \<rparr>)"
proof -
  have column: "scenario WORKLOAD_ENERGY = Some (map num [10, 10, 10])"
    by (simp add: scenario_def)
  from baseline_totals [where data = scenario and workload = "[10, 10, 10]"
      and parse = Map.empty and price_per_kwh = "0.1" and emission_factor_non_renewable = "0.5",
      OF column]
  show ?thesis
    by simp
qed

section \<open>What the calls do to the caller's table\<close>

lemma simulator_scenario:
  "map_sum id fst (simulator_run_simulation scenario 0.7 0.1 0.5 0.02) =
     Inr (scenario(BASELINE_EMISSIONS \<mapsto> [num 1.16, num 2.6, num 3.56],
                   OPTIMIZED_ENERGY \<mapsto> [num 10, num 9, num 9],
                   OPTIMIZED_EMISSIONS \<mapsto> [num 1.16, num 2.34, num 3.204]))"
  by (simp add: simulator_run_simulation_def scenario_def series_emissions_def
      favor_renewable_hours_def Let_def)

text \<open>
  C2, as stated, fails: on the scenario table \<open>run_simulation\<close> of \<open>simulator.py\<close>
  leaves three new columns in the caller's table, and \<open>calculate_baseline\<close> replaces a
  workload cell that is no number by \<open>NaN\<close> (the string \<open>unknown\<close> is no number for any
  reader of numbers; the reader used here reads none).
\<close>

theorem caller_table_is_written_counterexample:
  "map_sum id fst (simulator_run_simulation scenario 0.7 0.1 0.5 0.02) =
     Inr (scenario(BASELINE_EMISSIONS \<mapsto> [num 1.16, num 2.6, num 3.56],
                   OPTIMIZED_ENERGY \<mapsto> [num 10, num 9, num 9],
                   OPTIMIZED_EMISSIONS \<mapsto> [num 1.16, num 2.34, num 3.204]))
   \<and> scenario OPTIMIZED_ENERGY = None
   \<and> map_sum id fst
         (calculate_baseline Map.empty [WORKLOAD_ENERGY \<mapsto> [Text ''unknown'', num 10]] 0.1 0.5)
       = Inr [WORKLOAD_ENERGY \<mapsto> [Float NaN, num 10]]"
  by (simp add: simulator_run_simulation_def scenario_def series_emissions_def
      favor_renewable_hours_def Let_def calculate_baseline_def to_numeric_def)

text \<open>
  C2, amended. Both functions write to the caller's table. \<open>calculate_baseline\<close> replaces
  the workload column by its numeric coercion, adds no column and leaves every other column
  as it was; when the workload cells are numbers already, the table is unchanged.
  \<open>run_simulation\<close> of \<open>simulator.py\<close> assigns the columns \<open>Baseline Emissions\<close>,
  \<open>Optimized Energy\<close> and \<open>Optimized Emissions\<close> and leaves every other column as it was.
\<close>

theorem caller_table_after_call:
  "(calculate_baseline parse data price factor = Inr (data', metrics) \<longrightarrow>
      dom data' = dom data
      \<and> (\<forall>c. c \<noteq> WORKLOAD_ENERGY \<longrightarrow> data' c = data c)
      \<and> data' WORKLOAD_ENERGY
           = map_option (map (\<lambda>c. Float (to_numeric parse c))) (data WORKLOAD_ENERGY))
   \<and> (data WORKLOAD_ENERGY = Some (map Float xs) \<longrightarrow>
        map_sum id fst (calculate_baseline parse data price factor) = Inr data)
   \<and> (simulator_run_simulation data threshold price factor factor' = Inr (data'', results) \<longrightarrow>
        dom data'' = dom data \<union> {BASELINE_EMISSIONS, OPTIMIZED_ENERGY, OPTIMIZED_EMISSIONS}
        \<and> (\<forall>c. c \<notin> {BASELINE_EMISSIONS, OPTIMIZED_ENERGY, OPTIMIZED_EMISSIONS}
               \<longrightarrow> data'' c = data c))"
proof (intro conjI impI)
  assume run: "calculate_baseline parse data price factor = Inr (data', metrics)"
  then obtain column where col: "data WORKLOAD_ENERGY = Some column"
    by (auto simp: calculate_baseline_def split: option.splits)
  with run have eq: "data' = data(WORKLOAD_ENERGY \<mapsto> map Float (map (to_numeric parse) column))"
    by (auto simp: calculate_baseline_def Let_def split: if_splits)
  from col show "dom data' = dom data"
    unfolding eq by auto
  show "\<forall>c. c \<noteq> WORKLOAD_ENERGY \<longrightarrow> data' c = data c"
    unfolding eq by simp
  from col show "data' WORKLOAD_ENERGY
      = map_option (map (\<lambda>c. Float (to_numeric parse c))) (data WORKLOAD_ENERGY)"
    unfolding eq by simp
next
  assume "data WORKLOAD_ENERGY = Some (map Float xs)"
  then show "map_sum id fst (calculate_baseline parse data price factor) = Inr data"
    by (simp add: calculate_baseline_numeric [where data = data and xs = xs])
next
  assume run: "simulator_run_simulation data threshold price factor factor' = Inr (data'', results)"
  then obtain b o' e where
    eq: "data'' = data(BASELINE_EMISSIONS \<mapsto> b, OPTIMIZED_ENERGY \<mapsto> o', OPTIMIZED_EMISSIONS \<mapsto> e)"
    by (auto simp: simulator_run_simulation_def Let_def split: option.splits sum.splits)
  show "dom data'' = dom data \<union> {BASELINE_EMISSIONS, OPTIMIZED_ENERGY, OPTIMIZED_EMISSIONS}"
    unfolding eq by auto
  show "\<forall>c. c \<notin> {BASELINE_EMISSIONS, OPTIMIZED_ENERGY, OPTIMIZED_EMISSIONS} \<longrightarrow> data'' c = data c"
    unfolding eq by simp
qed

theorem caller_table_after_call_witness:
  "map_sum id fst (calculate_baseline Map.empty scenario 0.1 0.5) = Inr scenario
   \<and> (\<exists>d r. simulator_run_simulation scenario 0.7 0.1 0.5 0.02 = Inr (d, r)
          \<and> dom d = dom scenario \<union> {BASELINE_EMISSIONS, OPTIMIZED_ENERGY, OPTIMIZED_EMISSIONS}
          \<and> d WORKLOAD_ENERGY = scenario WORKLOAD_ENERGY)"
proof -
  have column: "scenario WORKLOAD_ENERGY = Some (map Float [Fin 10, Fin 10, Fin 10])"
    by (simp add: scenario_def)
  obtain d r where run: "simulator_run_simulation scenario 0.7 0.1 0.5 0.02 = Inr (d, r)"
    using simulator_scenario by (cases "simulator_run_simulation scenario 0.7 0.1 0.5 0.02") auto
  from caller_table_after_call [where data = scenario and parse = Map.empty and price = "0.1"
      and factor = "0.5" and xs = "[Fin 10, Fin 10, Fin 10]" and threshold = "0.7"
      and factor' = "0.02" and data'' = d and results = r] column run
  show ?thesis by simp
qed

section \<open>Thresholds outside the unit interval\<close>

text \<open>
  C7, as stated, fails: with the threshold 1.5 the engine runs on the scenario table and
  returns metrics (total optimized energy 27).
\<close>

theorem threshold_is_not_validated_counterexample:
  "map_sum id total_optimized_energy (run_simulation scenario 1.5 0.5 0.02) = Inr (Fin 27)"
proof -
  have schedule: "optimized_workload 3 [Fin 10, Fin 10, Fin 10]
      [Fin (4 / 5), Fin (1 / 2), Fin (3 / 10)] (3 / 2) = [Fin 9, Fin 9, Fin 9]"
    by (simp add: optimized_workload_def optimal_hours_def total_energy_to_shift_def
        boolean_index_def np_sum_def increase_workload.simps decrease_workload.simps)
  have len: "length [Text ''2024-01-01 00:00'', Text ''2024-01-01 01:00'', Text ''2024-01-01 02:00'']
      = 3"
    by simp
  have run: "run_simulation scenario 1.5 0.5 0.02 =
      Inr (simulate [Text ''2024-01-01 00:00'', Text ''2024-01-01 01:00'', Text ''2024-01-01 02:00'']
             [Fin (1 / 10), Fin (1 / 10), Fin (1 / 10)]
             [Fin (4 / 5), Fin (1 / 2), Fin (3 / 10)] [Fin 10, Fin 10, Fin 10]
             (3 / 2) (1 / 2) (1 / 50))"
    by (simp add: run_simulation_def scenario_def availability_fraction_def)
  show ?thesis
    by (subst run)
      (simp only: map_sum.simps simulate_total_optimized_energy len schedule,
        simp add: np_sum_def)
qed

text \<open>
  C7, amended. The engine does not check the threshold. On every validated table it returns
  the result of its algorithm for every threshold, inside or outside the unit interval, and
  on no table does the threshold decide whether the run fails.
\<close>

theorem every_threshold_runs:
  "(validated_table data timestamps prices availability workload \<longrightarrow>
      (\<exists>r. run_simulation data renewable_threshold emission_factor_non_renewable
              emission_factor_renewable = Inr r
          \<and> df r ''Optimized Energy (kWh)''
              = Some (map Float (optimized_workload (length timestamps) (map Fin workload)
                       (availability_fraction (map Fin availability)) renewable_threshold))))
   \<and> isl (run_simulation data renewable_threshold emission_factor_non_renewable
             emission_factor_renewable)
       = isl (run_simulation data renewable_threshold' emission_factor_non_renewable
                emission_factor_renewable)"
proof (intro conjI impI)
  assume "validated_table data timestamps prices availability workload"
  then show "\<exists>r. run_simulation data renewable_threshold emission_factor_non_renewable
              emission_factor_renewable = Inr r
          \<and> df r ''Optimized Energy (kWh)''
              = Some (map Float (optimized_workload (length timestamps) (map Fin workload)
                       (availability_fraction (map Fin availability)) renewable_threshold))"
    by (simp add: run_simulation_validated simulate_df_optimized)
next
  show "isl (run_simulation data renewable_threshold emission_factor_non_renewable
             emission_factor_renewable)
       = isl (run_simulation data renewable_threshold' emission_factor_non_renewable
                emission_factor_renewable)"
    by (simp add: run_simulation_def split: option.split sum.split)
qed

theorem every_threshold_runs_witness:
  "(\<exists>r. run_simulation scenario 1.5 0.5 0.02 = Inr r)
   \<and> isl (run_simulation scenario 1.5 0.5 0.02) = isl (run_simulation scenario 0.7 0.5 0.02)"
  using every_threshold_runs [where data = scenario and renewable_threshold = "1.5"
      and renewable_threshold' = "0.7" and emission_factor_non_renewable = "0.5"
      and emission_factor_renewable = "0.02"] scenario_validated
  by blast

end
